theory Spec2Isabelle
  imports Complex_Main "HOL-Library.Sublist"
begin

section \<open>Data model\<close>

text \<open>
  A cell is one dynamically typed scalar of a row. \<open>VNum\<close> carries the exact value of a
  parsed JSON number, \<open>VTime\<close> a timezone-aware (UTC) timestamp and \<open>VNaive\<close> a
  timezone-naive one, both as nanoseconds since the epoch. \<open>VNull\<close> is the missing value
  of an ordinary column (None or NaN), \<open>VNaT\<close> the missing value of a datetime column.
\<close>

datatype cell = VNull | VBool bool | VNum rat | VStr string | VTime int | VNaive int | VNaT

text \<open>One row as \<open>response.json()\<close> returns it: a dict, in key order.\<close>

type_synonym json_row = "(string \<times> cell) list"

datatype response = Response (status_code: nat) (json: "json_row list")

text \<open>
  What the program shows to the user, one constructor for each place of \<open>app.py\<close> that
  writes a message, with the values its f-string interpolates.
\<close>

datatype ui_msg =
    ErrorLoading string nat
  | WarnNotConverted nat string string
  | ErrorConverting string string
  | WarnRemoved nat string
  | SuccessCleaned nat string
  | InfoFiltered nat nat
  | ErrorFailedTables
  | ErrorFailedTable string
  | WarnFuture nat string
  | FutureRange int

text \<open>
  A DataFrame: the column labels in order, and the rows in order, each row giving the
  cell under every label. Only the cells under \<open>columns\<close> are part of the frame.
\<close>

record frame =
  columns :: "string list"
  rows :: "(string \<Rightarrow> cell) list"

section \<open>Paginated fetch (\<open>load_data\<close>, lines 24 to 51)\<close>

text \<open>
  The state of the \<open>while True\<close> loop when it is left: the rows in \<open>all_data\<close>, the
  \<open>offset\<close> parameter of every request made, the \<open>st.error\<close> messages written, and
  the responses of the remote store that no request has read.
\<close>

record fetch_result =
  fetched :: "json_row list"
  offsets :: "nat list"
  errors :: "ui_msg list"
  unread :: "response list"

text \<open>
  The remote store is a script of responses: the n-th call of \<open>requests.get\<close> is
  answered by the n-th response. The loop has no bound of its own, so a script that is
  used up before a \<open>break\<close> is reached gives \<open>None\<close>: the loop has not returned.
\<close>

fun fetch_loop ::
  "string \<Rightarrow> nat \<Rightarrow> response list \<Rightarrow> json_row list \<Rightarrow> nat \<Rightarrow> nat list \<Rightarrow> fetch_result option"
where
  "fetch_loop table_name limit [] all_data page reqs = None"
| "fetch_loop table_name limit (response # script) all_data page reqs =
     (let start = page * limit; reqs' = reqs @ [start] in
      if status_code response = 200 then
        (let data = json response in
         if data = [] then
           Some \<lparr>fetched = all_data, offsets = reqs', errors = [], unread = script\<rparr>
         else if length data < limit then
           Some \<lparr>fetched = all_data @ data, offsets = reqs', errors = [], unread = script\<rparr>
         else fetch_loop table_name limit script (all_data @ data) (page + 1) reqs')
      else
        Some \<lparr>fetched = all_data, offsets = reqs',
              errors = [ErrorLoading table_name (status_code response)], unread = script\<rparr>)"

text \<open>Lines 24 to 26: \<open>all_data = []\<close>, \<open>page = 0\<close>, \<open>limit = 1000\<close>.\<close>

definition fetch_all :: "string \<Rightarrow> response list \<Rightarrow> fetch_result option" where
  "fetch_all table_name script = fetch_loop table_name 1000 script [] 0 []"

section \<open>DataFrame operations used by the program\<close>

text \<open>
  \<open>keep='first'\<close>: the rows are read in order and a row is kept when its key has not
  been seen on a row before it. Missing values are equal to each other as keys, as for
  pandas' \<open>duplicated\<close>.
\<close>

fun keep_first :: "('a \<Rightarrow> 'k) \<Rightarrow> 'k set \<Rightarrow> 'a list \<Rightarrow> 'a list" where
  "keep_first key seen [] = []"
| "keep_first key seen (x # xs) =
     (if key x \<in> seen then keep_first key seen xs
      else x # keep_first key (insert (key x) seen) xs)"

text \<open>
  \<open>pd.DataFrame(all_data)\<close> for a list of dicts: the columns are the keys in the order
  of their first appearance, and a row has the missing value where its dict has no key.
\<close>

definition row_of :: "json_row \<Rightarrow> string \<Rightarrow> cell" where
  "row_of d col = (case map_of d col of Some v \<Rightarrow> v | None \<Rightarrow> VNull)"

definition DataFrame :: "json_row list \<Rightarrow> frame" where
  "DataFrame data =
     \<lparr>columns = keep_first id {} (concat (map (map fst) data)),
      rows = map row_of data\<rparr>"

text \<open>\<open>df[col]\<close>, and \<open>df[col] = values\<close> for values in row order.\<close>

definition column :: "frame \<Rightarrow> string \<Rightarrow> cell list" where
  "column df col = map (\<lambda>r. r col) (rows df)"

definition set_column :: "frame \<Rightarrow> string \<Rightarrow> cell list \<Rightarrow> frame" where
  "set_column df col vs =
     \<lparr>columns = (if col \<in> set (columns df) then columns df else columns df @ [col]),
      rows = map2 (\<lambda>r v. r(col := v)) (rows df) vs\<rparr>"

text \<open>\<open>df[col] = value\<close> for one scalar: every row gets it.\<close>

definition set_scalar :: "frame \<Rightarrow> string \<Rightarrow> cell \<Rightarrow> frame" where
  "set_scalar df col v = set_column df col (replicate (length (rows df)) v)"

fun isnull :: "cell \<Rightarrow> bool" where
  "isnull VNull = True"
| "isnull VNaT = True"
| "isnull v = False"

text \<open>\<open>df.drop_duplicates(subset=subset, keep='first')\<close>.\<close>

definition drop_duplicates :: "frame \<Rightarrow> string list \<Rightarrow> frame" where
  "drop_duplicates df cols = df\<lparr>rows := keep_first (\<lambda>r. map r cols) {} (rows df)\<rparr>"

text \<open>
  The dtype of a column, read off its cells: a column of aware timestamps and NaT is
  \<open>datetime64[ns, UTC]\<close>, one of naive timestamps and NaT is \<open>datetime64[ns]\<close>, any
  other is not a datetime column. A column of NaT alone counts as aware, which is what
  \<open>pd.to_datetime(..., utc=True)\<close> makes of a column where nothing parses.
\<close>

datatype dtype = DatetimeTZ | DatetimeNaive | Object

fun aware_cell :: "cell \<Rightarrow> bool" where
  "aware_cell (VTime t) = True"
| "aware_cell VNaT = True"
| "aware_cell v = False"

fun naive_cell :: "cell \<Rightarrow> bool" where
  "naive_cell (VNaive t) = True"
| "naive_cell VNaT = True"
| "naive_cell v = False"

definition dtype_of :: "cell list \<Rightarrow> dtype" where
  "dtype_of xs =
     (if list_all aware_cell xs then DatetimeTZ
      else if list_all naive_cell xs then DatetimeNaive
      else Object)"

definition is_datetime64_any_dtype :: "cell list \<Rightarrow> bool" where
  "is_datetime64_any_dtype xs = (dtype_of xs = DatetimeTZ \<or> dtype_of xs = DatetimeNaive)"

text \<open>\<open>series.dt.tz is None\<close>, for a datetime column.\<close>

definition dt_tz_is_None :: "cell list \<Rightarrow> bool" where
  "dt_tz_is_None xs = (dtype_of xs = DatetimeNaive)"

text \<open>
  \<open>pd.concat(dfs, ignore_index=True)\<close>: every row of every frame, in the order of the
  list; the columns are the union in order of first appearance; a row of a frame that
  lacks a column has the missing value there (NaT where the frames that have the column
  hold timestamps).
\<close>

definition na_value :: "frame list \<Rightarrow> string \<Rightarrow> cell" where
  "na_value dfs col =
     (if list_ex (\<lambda>df. col \<in> set (columns df)) dfs
         \<and> list_all (\<lambda>df. if col \<in> set (columns df)
                            then is_datetime64_any_dtype (column df col) else True) dfs
      then VNaT else VNull)"

definition concat_frames :: "frame list \<Rightarrow> frame" where
  "concat_frames dfs =
     \<lparr>columns = keep_first id {} (concat (map columns dfs)),
      rows = concat (map (\<lambda>df. map (\<lambda>r col. if col \<in> set (columns df) then r col
                                          else na_value dfs col) (rows df)) dfs)\<rparr>"

text \<open>\<open>df[flags]\<close> for a boolean mask in row order.\<close>

definition filter_rows :: "frame \<Rightarrow> bool list \<Rightarrow> frame" where
  "filter_rows df flags = df\<lparr>rows := map fst (filter snd (zip (rows df) flags))\<rparr>"

text \<open>
  \<open>pd.to_datetime(series, errors='coerce', utc=True)\<close> is not code of this program.
  As pandas documents it, a value that parses becomes a timestamp in UTC and every other
  value becomes NaT. Which instant each value parses to, and on which columns the call
  raises all the same (the program guards it with \<open>try\<close>), are parameters.
\<close>

record pandas =
  parse_datetime :: "cell \<Rightarrow> int option"
  to_datetime_raises :: "cell list \<Rightarrow> bool"

definition to_datetime :: "pandas \<Rightarrow> cell list \<Rightarrow> unit + cell list" where
  "to_datetime pd xs =
     (if to_datetime_raises pd xs then Inl ()
      else Inr (map (\<lambda>v. case parse_datetime pd v of Some t \<Rightarrow> VTime t | None \<Rightarrow> VNaT) xs))"

section \<open>Cleaning (\<open>load_data\<close>, lines 53 to 92)\<close>

definition date_cols :: "string list" where
  "date_cols = [''start_time'', ''bet_logged'', ''created_at'']"

definition unique_cols :: "string list" where
  "unique_cols = [''event'', ''start_time'', ''outcome'', ''stake'', ''odds'']"

text \<open>
  The body of \<open>for col in date_cols\<close> (lines 59 to 71), on the frame and the messages
  written so far. When the conversion raises, the error is shown and the column stays.
\<close>

definition convert_col ::
  "pandas \<Rightarrow> string \<Rightarrow> string \<Rightarrow> frame \<times> ui_msg list \<Rightarrow> frame \<times> ui_msg list"
where
  "convert_col pd table_name col st =
     (case st of (df, msgs) \<Rightarrow>
        if col \<in> set (columns df) then
          (case to_datetime pd (column df col) of
             Inr converted \<Rightarrow>
               (let df' = set_column df col converted;
                    null_count = length (filter isnull (column df' col)) in
                (df', if null_count > 0
                      then msgs @ [WarnNotConverted null_count col table_name] else msgs))
           | Inl e \<Rightarrow> (df, msgs @ [ErrorConverting col table_name]))
        else (df, msgs))"

definition convert_dates ::
  "pandas \<Rightarrow> string \<Rightarrow> frame \<times> ui_msg list \<Rightarrow> frame \<times> ui_msg list"
where
  "convert_dates pd table_name st = fold (convert_col pd table_name) date_cols st"

text \<open>Lines 76 to 84: the business key for \<open>ev_daily_bets\<close>, then the id.\<close>

definition dedupe_bets :: "string \<Rightarrow> frame \<Rightarrow> frame" where
  "dedupe_bets table_name df =
     (let df1 = (if table_name = ''ev_daily_bets'' then
                   (if list_all (\<lambda>col. col \<in> set (columns df)) unique_cols
                    then drop_duplicates df unique_cols else df)
                 else df)
      in if ''id'' \<in> set (columns df1) then drop_duplicates df1 [''id''] else df1)"

text \<open>
  \<open>load_data(table_name)\<close>. The outer \<open>None\<close> is a fetch loop that has not returned;
  otherwise the value returned (\<open>None\<close> or a frame) and the messages written.
\<close>

definition load_data ::
  "pandas \<Rightarrow> response list \<Rightarrow> string \<Rightarrow> (frame option \<times> ui_msg list) option"
where
  "load_data pd script table_name =
     (case fetch_all table_name script of
        None \<Rightarrow> None
      | Some res \<Rightarrow>
          Some (if fetched res \<noteq> [] then
                  (case convert_dates pd table_name (DataFrame (fetched res), errors res) of
                     (df, msgs) \<Rightarrow>
                       (let original_count = length (rows df);
                            df' = dedupe_bets table_name df;
                            removed_count = original_count - length (rows df') in
                        (Some df',
                         (if removed_count > 0
                          then msgs @ [WarnRemoved removed_count table_name] else msgs)
                         @ [SuccessCleaned (length (rows df')) table_name])))
                else (None, errors res)))"

text \<open>\<open>remove_duplicate_bets(df, table_name)\<close>, lines 94 to 104.\<close>

definition remove_duplicate_bets :: "frame \<Rightarrow> string \<Rightarrow> frame \<times> ui_msg list" where
  "remove_duplicate_bets df table_name =
     (let original_count = length (rows df);
          df' = (if table_name = ''ev_daily_bets'' then
                   (if list_all (\<lambda>col. col \<in> set (columns df)) unique_cols
                    then drop_duplicates df unique_cols else df)
                 else df)
      in (df', [InfoFiltered (length (rows df')) (original_count - length (rows df'))]))"

section \<open>Loading the selected data (lines 127 to 156)\<close>

text \<open>
  The script either goes on with the frame \<open>df\<close> or has called \<open>st.stop()\<close>. The remote
  store gives each table its own script of responses.
\<close>

datatype outcome = Stopped | Loaded frame

definition load_selected ::
  "pandas \<Rightarrow> (string \<Rightarrow> response list) \<Rightarrow> string \<Rightarrow> string \<Rightarrow> (outcome \<times> ui_msg list) option"
where
  "load_selected pd store table_option duplicate_handling =
     (if table_option = ''All Tables'' then
        (case load_data pd (store ''betting_analytics'') ''betting_analytics'' of
           None \<Rightarrow> None
         | Some (df1, m1) \<Rightarrow>
        (case load_data pd (store ''ev_daily_bets'') ''ev_daily_bets'' of
           None \<Rightarrow> None
         | Some (df2, m2) \<Rightarrow>
        (case load_data pd (store ''matched_betting_bets'') ''matched_betting_bets'' of
           None \<Rightarrow> None
         | Some (df3, m3) \<Rightarrow>
             Some (if df1 \<noteq> None \<and> df2 \<noteq> None \<and> df3 \<noteq> None then
                     (let t1 = set_scalar (the df1) ''data_source'' (VStr ''betting_analytics'');
                          t2 = set_scalar (the df2) ''data_source'' (VStr ''ev_daily_bets'');
                          t3 = set_scalar (the df3) ''data_source''
                                 (VStr ''matched_betting_bets'');
                          (t2', m4) = (if duplicate_handling = ''Keep first occurrence only''
                                       then remove_duplicate_bets t2 ''ev_daily_bets''
                                       else (t2, []))
                      in (Loaded (concat_frames [t1, t2', t3]), m1 @ m2 @ m3 @ m4))
                   else (Stopped, m1 @ m2 @ m3 @ [ErrorFailedTables])))))
      else
        (case load_data pd (store table_option) table_option of
           None \<Rightarrow> None
         | Some (df, m) \<Rightarrow>
             Some (if df = None then (Stopped, m @ [ErrorFailedTable table_option])
                   else if duplicate_handling = ''Keep first occurrence only''
                           \<and> table_option = ''ev_daily_bets''
                   then (case remove_duplicate_bets (the df) ''ev_daily_bets'' of
                           (df', m') \<Rightarrow> (Loaded df', m @ m'))
                   else (Loaded (the df), m))))"

section \<open>Comparing a timestamp column with the current moment\<close>

text \<open>A \<open>pd.Timestamp\<close>: aware (UTC) or naive, in nanoseconds since the epoch.\<close>

datatype timestamp = Aware int | Naive int

datatype py_error = TypeError

fun tz_localize_None :: "timestamp \<Rightarrow> timestamp" where
  "tz_localize_None (Aware t) = Naive t"
| "tz_localize_None (Naive t) = Naive t"

text \<open>
  \<open>series > ts\<close> and \<open>series <= ts\<close>: pandas compares an aware column with an aware
  timestamp and a naive column with a naive one, NaT comparing false; it raises
  \<open>TypeError\<close> for an aware value against a naive one and for a column that is not a
  datetime column.
\<close>

fun cell_cmp :: "(int \<Rightarrow> int \<Rightarrow> bool) \<Rightarrow> int \<Rightarrow> cell \<Rightarrow> bool" where
  "cell_cmp rel t (VTime x) = rel x t"
| "cell_cmp rel t (VNaive x) = rel x t"
| "cell_cmp rel t v = False"

fun compare_series ::
  "(int \<Rightarrow> int \<Rightarrow> bool) \<Rightarrow> cell list \<Rightarrow> timestamp \<Rightarrow> py_error + bool list"
where
  "compare_series rel xs (Aware t) =
     (if dtype_of xs = DatetimeTZ then Inr (map (cell_cmp rel t) xs) else Inl TypeError)"
| "compare_series rel xs (Naive t) =
     (if dtype_of xs = DatetimeNaive then Inr (map (cell_cmp rel t) xs) else Inl TypeError)"

text \<open>\<open>series.min()\<close> of a column of timestamps that is not empty.\<close>

fun cell_time :: "cell \<Rightarrow> int" where
  "cell_time (VTime x) = x"
| "cell_time (VNaive x) = x"
| "cell_time v = 0"

definition series_min :: "cell list \<Rightarrow> int" where
  "series_min xs = fold min (map cell_time (tl xs)) (cell_time (hd xs))"

text \<open>
  The check for future dates in the sidebar (lines 170 to 190); \<open>now\<close> is the instant
  \<open>pd.Timestamp.now(tz='UTC')\<close> returns. The result is the messages written, or the
  exception that ends the script.
\<close>

definition future_date_check :: "frame \<Rightarrow> int \<Rightarrow> py_error + ui_msg list" where
  "future_date_check df now =
     (let date_col_to_check =
            (if ''bet_logged'' \<in> set (columns df) then ''bet_logged''
             else if ''created_at'' \<in> set (columns df) then ''created_at''
             else ''start_time'')
      in if date_col_to_check \<in> set (columns df) then
           (let current_time =
                  (if is_datetime64_any_dtype (column df date_col_to_check)
                      \<and> dt_tz_is_None (column df date_col_to_check)
                   then tz_localize_None (Aware now) else Aware now)
            in case compare_series (>) (column df date_col_to_check) current_time of
                 Inl e \<Rightarrow> Inl e
               | Inr flags \<Rightarrow>
                   (let future_records = filter_rows df flags in
                    Inr (if length (rows future_records) > 0
                         then [WarnFuture (length (rows future_records)) date_col_to_check,
                               FutureRange (series_min (column future_records
                                                          date_col_to_check))]
                         else [])))
         else Inr [])"

text \<open>
  The filter of the cumulative profit chart (lines 343 to 376 and the warnings of its
  \<open>else\<close> branches): the frame \<open>df_filtered\<close> that is charted, when there is one, and the
  messages written.
\<close>

datatype chart_msg =
    FilteredOutFuture nat
  | NoDataAfterFiltering
  | DateColumnNotAvailable string
  | NoData

definition cumulative_profit_filter ::
  "string \<Rightarrow> frame \<Rightarrow> int \<Rightarrow> py_error + (frame option \<times> chart_msg list)"
where
  "cumulative_profit_filter table_option df now =
     (if length (rows df) > 0 then
        (let current_time = Aware now;
             date_col =
               (if table_option = ''matched_betting_bets''
                   \<or> (table_option = ''All Tables'' \<and> ''start_time'' \<in> set (columns df))
                then ''start_time''
                else if ''bet_logged'' \<in> set (columns df) then ''bet_logged''
                else if ''created_at'' \<in> set (columns df) then ''created_at''
                else ''start_time'')
         in if date_col \<in> set (columns df) \<and> is_datetime64_any_dtype (column df date_col)
            then
              (let comparison_time =
                     (if dt_tz_is_None (column df date_col)
                      then tz_localize_None current_time else current_time)
               in case compare_series (\<le>) (column df date_col) comparison_time of
                    Inl e \<Rightarrow> Inl e
                  | Inr flags \<Rightarrow>
                      (let df_filtered = filter_rows df flags in
                       Inr (Some df_filtered,
                            (if length (rows df_filtered) < length (rows df)
                             then [FilteredOutFuture
                                     (length (rows df) - length (rows df_filtered))]
                             else [])
                            @ (if length (rows df_filtered) > 0 then []
                               else [NoDataAfterFiltering]))))
            else Inr (None, [DateColumnNotAvailable date_col]))
      else Inr (None, [NoData]))"

section \<open>Refinement target and example data\<close>

text \<open>
  The order of the two rules as the specification words it: \<open>by_id\<close> first, then
  \<open>by_business_key\<close>. It is compared with \<open>dedupe_bets\<close>, which is the program's order.
\<close>

definition dedupe_by_id_then_business_key :: "frame \<Rightarrow> frame" where
  "dedupe_by_id_then_business_key df =
     drop_duplicates (drop_duplicates df [''id'']) unique_cols"

text \<open>A pandas that parses one date string and never raises.\<close>

definition pandas_example :: pandas where
  "pandas_example =
     \<lparr>parse_datetime =
        (\<lambda>v. if v = VStr ''2024-01-01T00:00:00Z'' then Some 1704067200000000000 else None),
      to_datetime_raises = (\<lambda>xs. False)\<rparr>"

text \<open>The same bet logged at two bookmakers.\<close>

definition bet_X :: json_row where
  "bet_X = [(''id'', VNum 1), (''event'', VStr ''A vs B''),
            (''start_time'', VStr ''2024-01-01T00:00:00Z''), (''outcome'', VStr ''A''),
            (''stake'', VNum 100), (''odds'', VNum 2), (''bookmaker'', VStr ''X'')]"


text \<open>
  Three rows of \<open>ev_daily_bets\<close>: the first two share an id, the last two share the
  business key.
\<close>

definition bet_1A :: json_row where
  "bet_1A = [(''id'', VNum 1), (''event'', VStr ''A vs B''),
             (''start_time'', VStr ''2024-01-01T00:00:00Z''), (''outcome'', VStr ''A''),
             (''stake'', VNum 100), (''odds'', VNum 2)]"

definition bet_1C :: json_row where
  "bet_1C = [(''id'', VNum 1), (''event'', VStr ''C vs D''),
             (''start_time'', VStr ''2024-01-01T00:00:00Z''), (''outcome'', VStr ''C''),
             (''stake'', VNum 100), (''odds'', VNum 2)]"

definition bet_2C :: json_row where
  "bet_2C = [(''id'', VNum 2), (''event'', VStr ''C vs D''),
             (''start_time'', VStr ''2024-01-01T00:00:00Z''), (''outcome'', VStr ''C''),
             (''stake'', VNum 100), (''odds'', VNum 2)]"

text \<open>A row whose \<open>start_time\<close> is no date and which has no \<open>bet_logged\<close>.\<close>

definition bet_bad_date :: json_row where
  "bet_bad_date = [(''id'', VNum 3), (''start_time'', VStr ''not a date''),
                   (''profit'', VNum 5)]"

text \<open>
  A store whose first answer for \<open>ev_daily_bets\<close> is a failure, and which has one row
  in each of the other tables.
\<close>

definition store_ev_fails :: "string \<Rightarrow> response list" where
  "store_ev_fails table_name =
     (if table_name = ''ev_daily_bets'' then [Response 500 []] else [Response 200 [bet_X]])"



section \<open>Pagination\<close>

lemma fetch_loop_pages:
  assumes "\<forall>p\<in>set fulls. length p = limit" and "length short < limit"
  shows "fetch_loop table_name limit (map (Response 200) (fulls @ [short]) @ rest) acc page reqs =
    Some \<lparr>fetched = acc @ concat (fulls @ [short]),
          offsets = reqs @ map (\<lambda>i. i * limit) [page..<page + length fulls + 1],
          errors = [], unread = rest\<rparr>"
  using assms
proof (induction fulls arbitrary: acc page reqs)
  case Nil
  then show ?case by (simp add: Let_def)
next
  case (Cons p fulls)
  have full: "length p = limit" and pos: "p \<noteq> []"
    using Cons.prems by auto
  have rest: "\<forall>q\<in>set fulls. length q = limit"
    using Cons.prems by simp
  have shift: "[page..<page + length (p # fulls) + 1] =
      page # [page + 1..<page + 1 + length fulls + 1]"
    by (simp add: upt_conv_Cons del: upt_Suc)
  have step: "fetch_loop table_name limit
        (map (Response 200) ((p # fulls) @ [short]) @ rest) acc page reqs =
      fetch_loop table_name limit (map (Response 200) (fulls @ [short]) @ rest)
        (acc @ p) (page + 1) (reqs @ [page * limit])"
    using full pos by (simp add: Let_def)
  show ?case
    unfolding step shift
    using Cons.IH [OF rest Cons.prems(2), of "acc @ p" "page + 1" "reqs @ [page * limit]"]
    by simp
qed

text \<open>
  C1. Pagination ends and returns every page, in order. The pages that one run of the
  fetcher is answered with, each of at most \<open>limit = 1000\<close> rows, are full pages followed
  by one page that is shorter than the limit (it may be empty), which ends the loop. For
  every such sequence the loop returns, the rows it has accumulated are the concatenation
  of all these pages in page order, it has made one request for each page, at offsets
  0, 1000, 2000, ..., it has written no error, and whatever the store would have answered
  to a further request is left unread.
\<close>

theorem fetch_all_concat_pages:
  assumes "\<forall>p\<in>set fulls. length p = 1000" and "length short < 1000"
  shows "fetch_all table_name (map (Response 200) (fulls @ [short]) @ rest) =
    Some \<lparr>fetched = concat (fulls @ [short]),
          offsets = map (\<lambda>i. i * 1000) [0..<length fulls + 1],
          errors = [], unread = rest\<rparr>"
  unfolding fetch_all_def
  using fetch_loop_pages [OF assms, of table_name rest "[]" 0 "[]"] by simp

text \<open>
  The scenario of the specification: pages of 1000, 1000 and 400 rows give 2400 rows
  with three requests, and a fourth response, were there one, stays unread.
\<close>

theorem fetch_all_concat_pages_witness:
  "length (replicate 1000 [(''id'', VNum 1)]) = 1000
   \<and> length (replicate 1000 [(''id'', VNum 2)]) = 1000
   \<and> length (replicate 400 [(''id'', VNum 3)]) < 1000
   \<and> (\<exists>r. fetch_all ''ev_daily_bets''
          (map (Response 200)
             ([replicate 1000 [(''id'', VNum 1)], replicate 1000 [(''id'', VNum 2)]]
              @ [replicate 400 [(''id'', VNum 3)]])
           @ [Response 200 [[(''id'', VNum 4)]]]) = Some r
        \<and> length (fetched r) = 2400 \<and> offsets r = [0, 1000, 2000]
        \<and> unread r = [Response 200 [[(''id'', VNum 4)]]])"
  using fetch_all_concat_pages
    [of "[replicate 1000 [(''id'', VNum 1)], replicate 1000 [(''id'', VNum 2)]]"
      "replicate 400 [(''id'', VNum 3)]" "''ev_daily_bets''"
      "[Response 200 [[(''id'', VNum 4)]]]"]
  by simp

section \<open>Keeping first occurrences\<close>

lemma keep_first_set: "set (keep_first key seen xs) \<subseteq> set xs"
  by (induction xs arbitrary: seen) auto

lemma keep_first_subseq: "subseq (keep_first key seen xs) xs"
  by (induction xs arbitrary: seen) auto

lemma keep_first_length: "length (keep_first key seen xs) \<le> length xs"
  by (induction xs arbitrary: seen) (auto simp: le_SucI)

lemma keep_first_unseen: "x \<in> set (keep_first key seen xs) \<Longrightarrow> key x \<notin> seen"
  by (induction xs arbitrary: seen) (auto split: if_splits)

lemma keep_first_distinct: "distinct (map key (keep_first key seen xs))"
  by (induction xs arbitrary: seen) (auto dest: keep_first_unseen)

lemma keep_first_preserves_distinct:
  "distinct (map f xs) \<Longrightarrow> distinct (map f (keep_first key seen xs))"
proof (induction xs arbitrary: seen)
  case Nil
  then show ?case by simp
next
  case (Cons x xs)
  have "f x \<notin> f ` set (keep_first key s xs)" for s
    using Cons.prems keep_first_set [of key s xs] by auto
  with Cons show ?case by auto
qed

lemma keep_first_fixed:
  "distinct (map key xs) \<Longrightarrow> key ` set xs \<inter> seen = {} \<Longrightarrow> keep_first key seen xs = xs"
  by (induction xs arbitrary: seen) auto

lemma keep_first_idem: "keep_first key {} (keep_first key {} xs) = keep_first key {} xs"
  by (rule keep_first_fixed) (simp_all add: keep_first_distinct)

lemma keep_first_nonempty: "xs \<noteq> [] \<Longrightarrow> keep_first key {} xs \<noteq> []"
  by (cases xs) auto


text \<open>
  Where a row stands decides: the row after \<open>pre\<close> is dropped exactly when its key is
  the key of a row of \<open>pre\<close> (or was seen before).
\<close>

lemma keep_first_append:
  "keep_first key seen (pre @ xs) =
     keep_first key seen pre @ keep_first key (seen \<union> key ` set pre) xs"
  by (induction pre arbitrary: seen) (auto simp: insert_absorb)

lemma keep_first_at:
  "keep_first key {} (pre @ x # post) =
     keep_first key {} pre
     @ (if key x \<in> key ` set pre then [] else [x])
     @ keep_first key (key ` set (pre @ [x])) post"
  by (simp add: keep_first_append insert_absorb)

lemma drop_duplicates_columns [simp]: "columns (drop_duplicates df cols) = columns df"
  by (simp add: drop_duplicates_def)

lemma drop_duplicates_rows:
  "rows (drop_duplicates df cols) = keep_first (\<lambda>r. map r cols) {} (rows df)"
  by (simp add: drop_duplicates_def)

lemma drop_duplicates_fixed:
  "distinct (map (\<lambda>r. map r cols) (rows df)) \<Longrightarrow> drop_duplicates df cols = df"
  by (simp add: drop_duplicates_def keep_first_fixed)

lemma drop_duplicates_idem:
  "drop_duplicates (drop_duplicates df cols) cols = drop_duplicates df cols"
  by (rule drop_duplicates_fixed) (simp add: drop_duplicates_rows keep_first_distinct)

lemma drop_duplicates_preserves_distinct:
  "distinct (map f (rows df)) \<Longrightarrow> distinct (map f (rows (drop_duplicates df cols)))"
  by (simp add: drop_duplicates_rows keep_first_preserves_distinct)

lemma dedupe_bets_columns [simp]: "columns (dedupe_bets table_name df) = columns df"
  by (simp add: dedupe_bets_def Let_def)

lemma dedupe_bets_idem:
  "dedupe_bets table_name (dedupe_bets table_name df) = dedupe_bets table_name df"
proof -
  let ?U = "drop_duplicates df unique_cols"
  have u: "drop_duplicates (drop_duplicates ?U [''id'']) unique_cols = drop_duplicates ?U [''id'']"
    by (rule drop_duplicates_fixed, rule drop_duplicates_preserves_distinct)
      (simp add: drop_duplicates_rows keep_first_distinct)
  show ?thesis
    by (simp add: dedupe_bets_def Let_def u drop_duplicates_idem)
qed

lemma remove_duplicate_bets_idem:
  "fst (remove_duplicate_bets (fst (remove_duplicate_bets df table_name)) table_name) =
     fst (remove_duplicate_bets df table_name)"
  by (simp add: remove_duplicate_bets_def Let_def drop_duplicates_idem)

text \<open>
  C4. Deduplication is idempotent, for every frame and every table name: the step of
  \<open>load_data\<close> (business key, then id), \<open>remove_duplicate_bets\<close>, and each of the
  two rules alone give, applied to their own result, that result again.
\<close>

theorem dedupe_idempotent:
  "dedupe_bets table_name (dedupe_bets table_name df) = dedupe_bets table_name df
   \<and> fst (remove_duplicate_bets (fst (remove_duplicate_bets df table_name)) table_name) =
       fst (remove_duplicate_bets df table_name)
   \<and> drop_duplicates (drop_duplicates df [''id'']) [''id''] = drop_duplicates df [''id'']
   \<and> drop_duplicates (drop_duplicates df unique_cols) unique_cols =
       drop_duplicates df unique_cols"
  by (simp add: dedupe_bets_idem remove_duplicate_bets_idem drop_duplicates_idem)

section \<open>Duplicate rules\<close>

lemmas example_eval =
  fetch_all_def DataFrame_def row_of_def convert_dates_def convert_col_def
  to_datetime_def set_column_def column_def dedupe_bets_def drop_duplicates_def
  date_cols_def unique_cols_def load_data_def Let_def pandas_example_def
  remove_duplicate_bets_def

text \<open>
  C3, as the specification states it, fails. The claim has the id rule run first and the
  business-key rule second, and a row dropped only when its id or its tuple repeats that
  of a row that is kept. On three rows where the first two share an id and the last two
  share the tuple, the program keeps the first row alone: its business-key pass drops
  the third row as a repeat of the second, and its id pass then drops the second. The
  order of the claim keeps the first and the third row.
\<close>

theorem dedupe_order_counterexample:
  "column (dedupe_bets ''ev_daily_bets'' (DataFrame [bet_1A, bet_1C, bet_2C])) ''id'' = [VNum 1]
   \<and> column (dedupe_by_id_then_business_key (DataFrame [bet_1A, bet_1C, bet_2C])) ''id'' =
       [VNum 1, VNum 2]
   \<and> (\<exists>df m. load_data pandas_example [Response 200 [bet_1A, bet_1C, bet_2C]]
                ''ev_daily_bets'' = Some (Some df, m)
              \<and> column df ''id'' = [VNum 1])"
  by (simp add: example_eval dedupe_by_id_then_business_key_def
      bet_1A_def bet_1C_def bet_2C_def)

text \<open>
  C3, amended. When both keys apply to a frame of \<open>ev_daily_bets\<close>, the business-key rule
  runs first and the id rule second, on what the first has left. The result is a
  subsequence of the frame in which no two rows share an id and no two rows share a
  business-key tuple.
\<close>

theorem dedupe_business_key_then_id:
  assumes "list_all (\<lambda>col. col \<in> set (columns df)) unique_cols"
    and "''id'' \<in> set (columns df)"
  shows "dedupe_bets ''ev_daily_bets'' df =
           drop_duplicates (drop_duplicates df unique_cols) [''id'']
     \<and> subseq (rows (dedupe_bets ''ev_daily_bets'' df)) (rows df)
     \<and> distinct (map (\<lambda>r. r ''id'') (rows (dedupe_bets ''ev_daily_bets'' df)))
     \<and> distinct (map (\<lambda>r. map r unique_cols) (rows (dedupe_bets ''ev_daily_bets'' df)))"
proof -
  let ?U = "drop_duplicates df unique_cols"
  have eq: "dedupe_bets ''ev_daily_bets'' df = drop_duplicates ?U [''id'']"
    using assms by (simp add: dedupe_bets_def Let_def)
  have sub: "subseq (rows (drop_duplicates ?U [''id''])) (rows df)"
    using keep_first_subseq [of "\<lambda>r. map r [''id'']" "{}" "rows ?U"]
      keep_first_subseq [of "\<lambda>r. map r unique_cols" "{}" "rows df"]
    by (auto simp: drop_duplicates_rows intro: subseq_order.trans)
  have "distinct (map (\<lambda>r. map r [''id'']) (rows (drop_duplicates ?U [''id''])))"
    by (simp only: drop_duplicates_rows keep_first_distinct)
  then have ids: "distinct (map (\<lambda>r. r ''id'') (rows (drop_duplicates ?U [''id''])))"
    by (simp add: distinct_map inj_on_def)
  have keys: "distinct (map (\<lambda>r. map r unique_cols) (rows (drop_duplicates ?U [''id''])))"
    by (rule drop_duplicates_preserves_distinct)
      (simp add: drop_duplicates_rows keep_first_distinct)
  show ?thesis
    unfolding eq using sub ids keys by simp
qed

theorem dedupe_business_key_then_id_witness:
  "list_all (\<lambda>col. col \<in> set (columns (DataFrame [bet_1A, bet_1C, bet_2C]))) unique_cols
   \<and> ''id'' \<in> set (columns (DataFrame [bet_1A, bet_1C, bet_2C]))
   \<and> dedupe_bets ''ev_daily_bets'' (DataFrame [bet_1A, bet_1C, bet_2C]) =
       drop_duplicates (drop_duplicates (DataFrame [bet_1A, bet_1C, bet_2C]) unique_cols)
         [''id'']
   \<and> distinct (map (\<lambda>r. r ''id'')
        (rows (dedupe_bets ''ev_daily_bets'' (DataFrame [bet_1A, bet_1C, bet_2C]))))"
proof -
  have cols: "list_all (\<lambda>col. col \<in> set (columns (DataFrame [bet_1A, bet_1C, bet_2C])))
      unique_cols"
    by (simp add: DataFrame_def unique_cols_def bet_1A_def bet_1C_def bet_2C_def)
  have idc: "''id'' \<in> set (columns (DataFrame [bet_1A, bet_1C, bet_2C]))"
    by (simp add: DataFrame_def bet_1A_def bet_1C_def bet_2C_def)
  show ?thesis
    using cols idc dedupe_business_key_then_id [OF cols idc] by blast
qed



section \<open>Date conversion and the result of \<open>load_data\<close>\<close>

lemma map2_same: "map2 f xs (map h xs) = map (\<lambda>x. f x (h x)) xs"
  by (induction xs) auto

lemma convert_col_rows:
  "rows (fst (convert_col pd table_name col (df, msgs))) =
     (if col \<in> set (columns df) \<and> \<not> to_datetime_raises pd (column df col) then
        map (\<lambda>r. r(col := (case parse_datetime pd (r col) of
                               Some t \<Rightarrow> VTime t | None \<Rightarrow> VNaT))) (rows df)
      else rows df)"
  by (simp add: convert_col_def to_datetime_def set_column_def column_def Let_def
      map2_same o_def)


lemma convert_col_length:
  "length (rows (fst (convert_col pd table_name col (df, msgs)))) = length (rows df)"
  by (simp add: convert_col_rows)

lemma convert_col_msgs: "set msgs \<subseteq> set (snd (convert_col pd table_name col (df, msgs)))"
  by (auto simp: convert_col_def Let_def split: sum.splits)




lemma convert_dates_unfold:
  "convert_dates pd table_name st =
     convert_col pd table_name ''created_at''
       (convert_col pd table_name ''bet_logged''
          (convert_col pd table_name ''start_time'' st))"
  by (simp add: convert_dates_def date_cols_def)


lemma convert_dates_length:
  "length (rows (fst (convert_dates pd table_name (df, msgs)))) = length (rows df)"
  unfolding convert_dates_unfold
  by (metis convert_col_length prod.collapse)

lemma convert_dates_msgs:
  "set msgs \<subseteq> set (snd (convert_dates pd table_name (df, msgs)))"
proof -
  obtain d1 m1 where s1: "convert_col pd table_name ''start_time'' (df, msgs) = (d1, m1)"
    by (cases "convert_col pd table_name ''start_time'' (df, msgs)")
  obtain d2 m2 where s2: "convert_col pd table_name ''bet_logged'' (d1, m1) = (d2, m2)"
    by (cases "convert_col pd table_name ''bet_logged'' (d1, m1)")
  have "set msgs \<subseteq> set m1"
    using convert_col_msgs [of msgs pd table_name "''start_time''" df] by (simp add: s1)
  moreover have "set m1 \<subseteq> set m2"
    using convert_col_msgs [of m1 pd table_name "''bet_logged''" d1] by (simp add: s2)
  moreover have "set m2 \<subseteq> set (snd (convert_col pd table_name ''created_at'' (d2, m2)))"
    by (rule convert_col_msgs)
  ultimately show ?thesis
    unfolding convert_dates_unfold s1 s2 by blast
qed


lemma dedupe_bets_nonempty: "rows df \<noteq> [] \<Longrightarrow> rows (dedupe_bets table_name df) \<noteq> []"
  by (simp add: dedupe_bets_def Let_def drop_duplicates_rows keep_first_nonempty)

text \<open>What \<open>load_data\<close> returns once the loop has returned.\<close>

lemma load_data_result:
  assumes "fetch_all table_name script = Some res"
  shows "fetched res = [] \<Longrightarrow> load_data pd script table_name = Some (None, errors res)"
    and "fetched res \<noteq> [] \<Longrightarrow>
      \<exists>msgs. load_data pd script table_name =
        Some (Some (dedupe_bets table_name
                 (fst (convert_dates pd table_name (DataFrame (fetched res), errors res)))),
              msgs)
        \<and> set (errors res) \<subseteq> set msgs
        \<and> SuccessCleaned (length (rows (dedupe_bets table_name
             (fst (convert_dates pd table_name (DataFrame (fetched res), errors res))))))
             table_name \<in> set msgs"
proof -
  show "fetched res = [] \<Longrightarrow> load_data pd script table_name = Some (None, errors res)"
    using assms by (simp add: load_data_def)
  show "fetched res \<noteq> [] \<Longrightarrow>
      \<exists>msgs. load_data pd script table_name =
        Some (Some (dedupe_bets table_name
                 (fst (convert_dates pd table_name (DataFrame (fetched res), errors res)))),
              msgs)
        \<and> set (errors res) \<subseteq> set msgs
        \<and> SuccessCleaned (length (rows (dedupe_bets table_name
             (fst (convert_dates pd table_name (DataFrame (fetched res), errors res))))))
             table_name \<in> set msgs"
    using assms convert_dates_msgs [of "errors res" pd table_name "DataFrame (fetched res)"]
    by (auto simp: load_data_def Let_def split: prod.splits)
qed

lemma load_data_rows_nonempty:
  assumes "load_data pd script table_name = Some (Some df, msgs)"
  shows "rows df \<noteq> []"
proof -
  obtain res where res: "fetch_all table_name script = Some res"
    using assms by (auto simp: load_data_def split: option.splits)
  have ne: "fetched res \<noteq> []"
    using assms load_data_result(1) [OF res, of pd] by auto
  have "rows (DataFrame (fetched res)) \<noteq> []"
    using ne by (simp add: DataFrame_def)
  then have "rows (fst (convert_dates pd table_name (DataFrame (fetched res), errors res))) \<noteq> []"
    using convert_dates_length [of pd table_name "DataFrame (fetched res)" "errors res"]
    by (metis length_0_conv)
  then have "rows (dedupe_bets table_name
      (fst (convert_dates pd table_name (DataFrame (fetched res), errors res)))) \<noteq> []"
    by (rule dedupe_bets_nonempty)
  then show ?thesis
    using assms load_data_result(2) [OF res ne, of pd] by auto
qed








text \<open>
  C10. Once the fetch loop has returned, \<open>load_data\<close> returns \<open>None\<close> exactly when no
  row was accumulated, and a frame it returns has at least one row. An empty first page
  and a failed first request both give \<open>None\<close>, so the value returned does not tell an
  empty table from a failed fetch.
\<close>

theorem load_data_none_iff_no_rows:
  assumes "fetch_all table_name script = Some res" and "s \<noteq> 200"
  shows "(\<exists>d msgs. load_data pd script table_name = Some (d, msgs)
            \<and> (d = None) = (fetched res = [])
            \<and> (case d of None \<Rightarrow> True | Some df \<Rightarrow> rows df \<noteq> []))
     \<and> map_option fst (load_data pd (Response 200 [] # rest) table_name) = Some None
     \<and> map_option fst (load_data pd (Response s body # rest) table_name) = Some None"
proof -
  have a: "\<exists>d msgs. load_data pd script table_name = Some (d, msgs)
            \<and> (d = None) = (fetched res = [])
            \<and> (case d of None \<Rightarrow> True | Some df \<Rightarrow> rows df \<noteq> [])"
  proof (cases "fetched res = []")
    case True
    then show ?thesis
      using load_data_result(1) [OF assms(1), of pd] by simp
  next
    case False
    then obtain df msgs where ld: "load_data pd script table_name = Some (Some df, msgs)"
      using load_data_result(2) [OF assms(1), of pd] by blast
    then show ?thesis
      using False load_data_rows_nonempty [OF ld] by simp
  qed
  have b: "map_option fst (load_data pd (Response 200 [] # rest) table_name) = Some None"
    by (simp add: load_data_def fetch_all_def Let_def)
  have c: "map_option fst (load_data pd (Response s body # rest) table_name) = Some None"
    using assms(2) by (simp add: load_data_def fetch_all_def Let_def)
  show ?thesis
    using a b c by blast
qed

theorem load_data_none_iff_no_rows_witness:
  "fetch_all ''ev_daily_bets'' [Response 200 []] =
     Some \<lparr>fetched = [], offsets = [0], errors = [], unread = []\<rparr>
   \<and> (503::nat) \<noteq> 200
   \<and> (\<exists>msgs. load_data pandas_example [Response 200 []] ''ev_daily_bets'' = Some (None, msgs))
   \<and> map_option fst (load_data pandas_example [Response 503 []] ''ev_daily_bets'') = Some None"
proof -
  have f: "fetch_all ''ev_daily_bets'' [Response 200 []] =
     Some \<lparr>fetched = [], offsets = [0], errors = [], unread = []\<rparr>"
    by (simp add: fetch_all_def Let_def)
  have s: "(503::nat) \<noteq> 200"
    by simp
  show ?thesis
    using f s load_data_none_iff_no_rows [OF f s, of pandas_example "[]" "[]"]
    by auto
qed

text \<open>
  C2, on the program. A request that fails after a full first page leaves the loop with
  the rows of that page in \<open>all_data\<close>, and \<open>load_data\<close> goes on with them: it writes the
  error and then returns a frame of the partial data and reports success, and the script
  that selected the table goes on with this frame.
\<close>

lemma load_data_after_failed_page:
  assumes "length p = 1000" and "s \<noteq> 200"
  shows "\<exists>df msgs. load_data pd (Response 200 p # Response s body # rest) table_name =
      Some (Some df, msgs)
    \<and> rows df \<noteq> []
    \<and> ErrorLoading table_name s \<in> set msgs
    \<and> SuccessCleaned (length (rows df)) table_name \<in> set msgs"
proof -
  have ne: "p \<noteq> []"
    using assms(1) by auto
  have f: "fetch_all table_name (Response 200 p # Response s body # rest) =
      Some \<lparr>fetched = p, offsets = [0, 1000], errors = [ErrorLoading table_name s],
            unread = rest\<rparr>"
    using assms ne by (simp add: fetch_all_def Let_def)
  obtain msgs where ld: "load_data pd (Response 200 p # Response s body # rest) table_name =
      Some (Some (dedupe_bets table_name (fst (convert_dates pd table_name
              (DataFrame p, [ErrorLoading table_name s])))), msgs)"
    and er: "ErrorLoading table_name s \<in> set msgs"
    and ok: "SuccessCleaned (length (rows (dedupe_bets table_name (fst (convert_dates pd
              table_name (DataFrame p, [ErrorLoading table_name s])))))) table_name \<in> set msgs"
    using load_data_result(2) [OF f, of pd] ne by auto
  show ?thesis
    using ld er ok load_data_rows_nonempty [OF ld] by blast
qed

theorem load_data_partial_after_failure:
  "\<exists>df msgs. load_data pd [Response 200 (replicate 1000 bet_X), Response 500 []]
       ''betting_analytics'' = Some (Some df, msgs)
     \<and> rows df \<noteq> []
     \<and> ErrorLoading ''betting_analytics'' 500 \<in> set msgs
     \<and> SuccessCleaned (length (rows df)) ''betting_analytics'' \<in> set msgs
     \<and> load_selected pd (\<lambda>t. [Response 200 (replicate 1000 bet_X), Response 500 []])
           ''betting_analytics'' duplicate_handling = Some (Loaded df, msgs)"
proof -
  obtain df msgs where ld: "load_data pd [Response 200 (replicate 1000 bet_X), Response 500 []]
       ''betting_analytics'' = Some (Some df, msgs)"
    and rest: "rows df \<noteq> []" "ErrorLoading ''betting_analytics'' 500 \<in> set msgs"
      "SuccessCleaned (length (rows df)) ''betting_analytics'' \<in> set msgs"
    using load_data_after_failed_page [of "replicate 1000 bet_X" 500 pd "[]" "[]"
        "''betting_analytics''"]
    by auto
  have "load_selected pd (\<lambda>t. [Response 200 (replicate 1000 bet_X), Response 500 []])
      ''betting_analytics'' duplicate_handling = Some (Loaded df, msgs)"
    by (simp add: load_selected_def ld)
  with ld rest show ?thesis
    by blast
qed

section \<open>Loading all tables\<close>



lemma remove_duplicate_bets_columns [simp]:
  "columns (fst (remove_duplicate_bets df table_name)) = columns df"
  by (simp add: remove_duplicate_bets_def Let_def)




text \<open>The branch for "All Tables" when the three frames are there.\<close>

lemma load_selected_all:
  assumes "load_data pd (store ''betting_analytics'') ''betting_analytics'' = Some (Some df1, m1)"
    and "load_data pd (store ''ev_daily_bets'') ''ev_daily_bets'' = Some (Some df2, m2)"
    and "load_data pd (store ''matched_betting_bets'') ''matched_betting_bets'' =
           Some (Some df3, m3)"
  shows "load_selected pd store ''All Tables'' duplicate_handling =
    Some (Loaded (concat_frames
            [set_scalar df1 ''data_source'' (VStr ''betting_analytics''),
             fst (if duplicate_handling = ''Keep first occurrence only''
                  then remove_duplicate_bets
                         (set_scalar df2 ''data_source'' (VStr ''ev_daily_bets''))
                         ''ev_daily_bets''
                  else (set_scalar df2 ''data_source'' (VStr ''ev_daily_bets''), [])),
             set_scalar df3 ''data_source'' (VStr ''matched_betting_bets'')]),
          m1 @ m2 @ m3 @
          snd (if duplicate_handling = ''Keep first occurrence only''
               then remove_duplicate_bets
                      (set_scalar df2 ''data_source'' (VStr ''ev_daily_bets''))
                      ''ev_daily_bets''
               else (set_scalar df2 ''data_source'' (VStr ''ev_daily_bets''), [])))"
  by (simp add: load_selected_def assms Let_def case_prod_beta)


text \<open>
  C7. In the mode "All Tables", once the three calls of \<open>load_data\<close> have returned: if
  any of them returned \<open>None\<close> (the frame is not available), the script writes the error
  and stops, and no combined frame is made; a combined frame is made exactly when all
  three frames are there.
\<close>

theorem all_tables_all_or_nothing:
  assumes "load_data pd (store ''betting_analytics'') ''betting_analytics'' = Some (d1, m1)"
    and "load_data pd (store ''ev_daily_bets'') ''ev_daily_bets'' = Some (d2, m2)"
    and "load_data pd (store ''matched_betting_bets'') ''matched_betting_bets'' = Some (d3, m3)"
  shows "(d1 = None \<or> d2 = None \<or> d3 = None \<longrightarrow>
            load_selected pd store ''All Tables'' duplicate_handling =
              Some (Stopped, m1 @ m2 @ m3 @ [ErrorFailedTables]))
     \<and> (\<exists>df msgs. load_selected pd store ''All Tables'' duplicate_handling =
                     Some (Loaded df, msgs)) =
         (d1 \<noteq> None \<and> d2 \<noteq> None \<and> d3 \<noteq> None)"
proof -
  have stop: "load_selected pd store ''All Tables'' duplicate_handling =
      Some (Stopped, m1 @ m2 @ m3 @ [ErrorFailedTables])"
    if "d1 = None \<or> d2 = None \<or> d3 = None"
    using that by (auto simp: load_selected_def assms)
  have go: "\<exists>df msgs. load_selected pd store ''All Tables'' duplicate_handling =
      Some (Loaded df, msgs)"
    if avail: "d1 \<noteq> None \<and> d2 \<noteq> None \<and> d3 \<noteq> None"
  proof -
    obtain df1 df2 df3 where "d1 = Some df1" "d2 = Some df2" "d3 = Some df3"
      using avail by auto
    then show ?thesis
      using load_selected_all [of pd store df1 m1 df2 m2 df3 m3 duplicate_handling] assms
      by simp
  qed
  show ?thesis
  proof (cases "d1 = None \<or> d2 = None \<or> d3 = None")
    case True
    have "\<not> (\<exists>df msgs. load_selected pd store ''All Tables'' duplicate_handling =
        Some (Loaded df, msgs))"
      using stop [OF True] by simp
    with True stop show ?thesis
      by simp
  next
    case False
    then have avail: "d1 \<noteq> None \<and> d2 \<noteq> None \<and> d3 \<noteq> None"
      by simp
    show ?thesis
      using go [OF avail] avail by auto
  qed
qed

theorem all_tables_all_or_nothing_witness:
  "(\<exists>d1 m1. load_data pandas_example (store_ev_fails ''betting_analytics'')
        ''betting_analytics'' = Some (Some d1, m1))
   \<and> load_data pandas_example (store_ev_fails ''ev_daily_bets'') ''ev_daily_bets'' =
        Some (None, [ErrorLoading ''ev_daily_bets'' 500])
   \<and> (\<exists>msgs. load_selected pandas_example store_ev_fails ''All Tables''
        ''Keep all bookmakers'' = Some (Stopped, msgs) \<and> ErrorFailedTables \<in> set msgs)"
proof -
  obtain d1 m1 where l1: "load_data pandas_example (store_ev_fails ''betting_analytics'')
        ''betting_analytics'' = Some (Some d1, m1)"
    by (simp add: example_eval store_ev_fails_def bet_X_def)
  have l2: "load_data pandas_example (store_ev_fails ''ev_daily_bets'') ''ev_daily_bets'' =
        Some (None, [ErrorLoading ''ev_daily_bets'' 500])"
    by (simp add: load_data_def fetch_all_def Let_def store_ev_fails_def)
  obtain d3 m3 where l3: "load_data pandas_example (store_ev_fails ''matched_betting_bets'')
        ''matched_betting_bets'' = Some (Some d3, m3)"
    by (simp add: example_eval store_ev_fails_def bet_X_def)
  show ?thesis
    using l1 l2 all_tables_all_or_nothing [OF l1 l2 l3, of "''Keep all bookmakers''"]
    by auto
qed

section \<open>The filter on future dates\<close>

lemma filter_zip_map: "map fst (filter snd (zip xs (map P xs))) = filter P xs"
  by (induction xs) auto

lemma filter_rows_column:
  "rows (filter_rows df (map (cell_cmp rel t) (column df col))) =
     filter (\<lambda>r. cell_cmp rel t (r col)) (rows df)"
  using filter_zip_map [of "rows df" "\<lambda>r. cell_cmp rel t (r col)"]
  by (simp add: filter_rows_def column_def o_def)

text \<open>
  The comparison of the chart's filter is guarded: it is made on a datetime column only,
  with the moment made naive for a naive column, so it does not raise; the rows kept are
  those whose value is at or before the moment. A row whose value is NaT is not kept.
\<close>

lemma cumulative_profit_filter_kept:
  assumes "cumulative_profit_filter table_option df now = Inr (Some kept, msgs)"
  shows "\<exists>col. col \<in> set (columns df)
      \<and> rows kept = filter (\<lambda>r. cell_cmp (\<le>) now (r col)) (rows df)"
  using assms
  by (auto simp: cumulative_profit_filter_def Let_def is_datetime64_any_dtype_def
      dt_tz_is_None_def filter_rows_column split: if_splits sum.splits)

lemma cumulative_profit_filter_no_error:
  "cumulative_profit_filter table_option df now \<noteq> Inl e"
  by (auto simp: cumulative_profit_filter_def Let_def is_datetime64_any_dtype_def
      dt_tz_is_None_def split: if_splits sum.splits)

text \<open>
  C9, on the program. A frame as \<open>load_data\<close> returns it, with one date in the past and
  one value that did not parse (NaT), at a moment after both: the sidebar check finds no
  future date, and the filter of the cumulative chart all the same drops the row with
  NaT and reports one future record filtered out.
\<close>

theorem future_filter_drops_null_dates:
  "\<exists>df msgs kept.
     load_data pandas_example [Response 200 [bet_X, bet_bad_date]] ''betting_analytics'' =
       Some (Some df, msgs)
     \<and> column df ''start_time'' = [VTime 1704067200000000000, VNaT]
     \<and> future_date_check df 1800000000000000000 = Inr []
     \<and> cumulative_profit_filter ''betting_analytics'' df 1800000000000000000 =
         Inr (Some kept, [FilteredOutFuture 1])
     \<and> column kept ''id'' = [VNum 1]"
  by (simp add: example_eval bet_X_def bet_bad_date_def future_date_check_def
      cumulative_profit_filter_def is_datetime64_any_dtype_def dt_tz_is_None_def
      dtype_of_def filter_rows_def)

end
